theory Spec2Isabelle
  imports Main "HOL-Library.Word"
begin

section \<open>Debugging and fault simulation monitor (debug_fault_sim.c)\<close>

text \<open>
  A shallow embedding of the debug monitor of \<^verbatim>\<open>4 Debugging-Fault Simulation/debug_fault_sim.c\<close>.

  Conventions of the embedding:
  \<^item> every C function that takes \<^verbatim>\<open>debug_monitor_t*\<close> and mutates it becomes a function from
    the monitor to the updated monitor;
  \<^item> the two fixed arrays \<^verbatim>\<open>log_buffer[1000]\<close> and \<^verbatim>\<open>fault_history[50]\<close> are maps from the
    index to the element; only indices below the array size are ever read or written;
  \<^item> \<^verbatim>\<open>time(NULL)\<close>, \<^verbatim>\<open>rand()\<close>, the result of \<^verbatim>\<open>fopen\<close> and of \<^verbatim>\<open>ferror\<close> are inputs of the
    environment and appear as extra, trailing parameters; one call of an operation sees one
    clock reading (the clock has a resolution of one second), except for the recovery, which
    sleeps two seconds and therefore takes a second reading;
  \<^item> \<^verbatim>\<open>printf\<close> to the console is write-only and is not part of the state;
  \<^item> the function-local \<^verbatim>\<open>static\<close> variables of \<^verbatim>\<open>check_system_health\<close> are a record of their
    own that is passed in and returned;
  \<^item> \<^verbatim>\<open>uint8_t\<close>, \<^verbatim>\<open>uint16_t\<close>, \<^verbatim>\<open>uint32_t\<close> are words of that width; \<^verbatim>\<open>time_t\<close> is \<open>int\<close>; the
    two \<^verbatim>\<open>int\<close> counters \<^verbatim>\<open>log_count\<close> and \<^verbatim>\<open>fault_count\<close>, which index the arrays and stay
    between 0 and the array size, are \<open>nat\<close>;
  \<^item> the two \<^verbatim>\<open>float\<close> gauges only ever hold 0 (after \<^verbatim>\<open>memset\<close>) or \<^verbatim>\<open>c + (rand() % k)\<close>
    for small integer constants, which binary32 represents exactly, and are compared with
    integer thresholds only; they are \<open>int\<close>.
\<close>

subsection \<open>Configuration constants (lines 83 to 87)\<close>

definition MAX_LOG_ENTRIES :: nat where
  "MAX_LOG_ENTRIES = 1000"

definition MAX_FAULT_HISTORY :: nat where
  "MAX_FAULT_HISTORY = 50"

subsection \<open>Enumerations (lines 90 to 129)\<close>

datatype error_code_t =
    ERR_NONE
  | ERR_SENSOR_FAILURE
  | ERR_ACTUATOR_STUCK
  | ERR_COMMUNICATION_LOST
  | ERR_POWER_FLUCTUATION
  | ERR_MEMORY_CORRUPTION
  | ERR_WATCHDOG_TIMEOUT
  | ERR_INVALID_STATE
  | ERR_FILE_IO_ERROR
  | ERR_SYSTEM_OVERLOAD

datatype log_level_t = LOG_DEBUG | LOG_INFO | LOG_WARNING | LOG_ERROR | LOG_CRITICAL

text \<open>The numeric value of a log level, for the comparisons \<^verbatim>\<open>level >= LOG_WARNING\<close>.\<close>

fun level_num :: "log_level_t \<Rightarrow> nat" where
  "level_num LOG_DEBUG = 0"
| "level_num LOG_INFO = 1"
| "level_num LOG_WARNING = 2"
| "level_num LOG_ERROR = 3"
| "level_num LOG_CRITICAL = 4"

datatype system_state_t =
  STATE_INIT | STATE_RUNNING | STATE_FAULT | STATE_RECOVERY | STATE_SHUTDOWN

datatype fault_type_t =
    FAULT_NONE
  | FAULT_SENSOR_NOISE
  | FAULT_ACTUATOR_FAIL
  | FAULT_COMM_BREAK
  | FAULT_POWER_SPIKE
  | FAULT_MEMORY_LEAK

fun fault_num :: "fault_type_t \<Rightarrow> nat" where
  "fault_num FAULT_NONE = 0"
| "fault_num FAULT_SENSOR_NOISE = 1"
| "fault_num FAULT_ACTUATOR_FAIL = 2"
| "fault_num FAULT_COMM_BREAK = 3"
| "fault_num FAULT_POWER_SPIKE = 4"
| "fault_num FAULT_MEMORY_LEAK = 5"

subsection \<open>Structures (lines 132 to 171)\<close>

record log_entry_t =
  timestamp :: int
  level :: log_level_t
  error_code :: error_code_t
  message :: string
  func :: string
  line_number :: int

record fault_record_t =
  fr_timestamp :: int
  fault_type :: fault_type_t
  fr_error_code :: error_code_t
  resolved :: "8 word"
  description :: string

record system_health_t =
  current_state :: system_state_t
  uptime_seconds :: "32 word"
  health_fault_count :: "16 word"
  recovery_count :: "16 word"
  cpu_usage_percent :: int
  memory_usage_percent :: int
  last_health_check :: "32 word"

text \<open>
  \<open>log_file\<close> is \<open>None\<close> for the \<^verbatim>\<open>NULL\<close> handle and otherwise holds the text written
  through the handle so far.
\<close>

record debug_monitor_t =
  log_buffer :: "nat \<Rightarrow> log_entry_t"
  log_count :: nat
  fault_history :: "nat \<Rightarrow> fault_record_t"
  fault_count :: nat
  health :: system_health_t
  log_file :: "string option"
  fault_injection_enabled :: "8 word"
  active_fault :: fault_type_t

text \<open>The statics of \<^verbatim>\<open>check_system_health\<close> (lines 446 and 447), both initially 0.\<close>

record watchdog_t =
  last_watchdog_feed :: int
  watchdog_logged :: int

definition watchdog_init :: watchdog_t where
  "watchdog_init = \<lparr>last_watchdog_feed = 0, watchdog_logged = 0\<rparr>"

subsection \<open>The all-zero monitor left by memset (line 317)\<close>

definition zero_log_entry :: log_entry_t where
  "zero_log_entry =
     \<lparr>timestamp = 0, level = LOG_DEBUG, error_code = ERR_NONE, message = [], func = [],
      line_number = 0\<rparr>"

definition zero_fault_record :: fault_record_t where
  "zero_fault_record =
     \<lparr>fr_timestamp = 0, fault_type = FAULT_NONE, fr_error_code = ERR_NONE, resolved = 0,
      description = []\<rparr>"

definition zero_monitor :: debug_monitor_t where
  "zero_monitor =
     \<lparr>log_buffer = (\<lambda>i. zero_log_entry), log_count = 0,
      fault_history = (\<lambda>i. zero_fault_record), fault_count = 0,
      health = \<lparr>current_state = STATE_INIT, uptime_seconds = 0, health_fault_count = 0,
                recovery_count = 0, cpu_usage_percent = 0, memory_usage_percent = 0,
                last_health_check = 0\<rparr>,
      log_file = None, fault_injection_enabled = 0, active_fault = FAULT_NONE\<rparr>"

subsection \<open>log_message (lines 365 to 399)\<close>

text \<open>
  Lines 367 to 381: make room when the buffer is full, then fill the slot at \<open>log_count\<close>.
  \<^verbatim>\<open>memmove\<close> copies the 999 entries at indices 1 to 999 onto indices 0 to 998 and leaves
  index 999 as it was. Every field of the slot is assigned; \<^verbatim>\<open>strncpy\<close> keeps at most 255
  and 63 characters.
\<close>

definition log_store ::
  "debug_monitor_t \<Rightarrow> log_level_t \<Rightarrow> error_code_t \<Rightarrow> string \<Rightarrow> string \<Rightarrow> int \<Rightarrow> int
     \<Rightarrow> debug_monitor_t" where
  "log_store monitor lvl err msg fn ln now =
     (let m1 = (if log_count monitor \<ge> MAX_LOG_ENTRIES
                then monitor\<lparr>log_buffer :=
                                (\<lambda>i. if i < MAX_LOG_ENTRIES - 1 then log_buffer monitor (Suc i)
                                      else log_buffer monitor i),
                              log_count := MAX_LOG_ENTRIES - 1\<rparr>
                else monitor);
          entry = \<lparr>timestamp = now, level = lvl, error_code = err,
                   message = take 255 msg, func = take 63 fn, line_number = ln\<rparr>
      in m1\<lparr>log_buffer := (log_buffer m1)(log_count m1 := entry),
             log_count := log_count m1 + 1\<rparr>)"

text \<open>
  Lines 391 to 398: an entry of level Error or Critical counts as a fault and, in state
  Running, moves the monitor to state Fault and logs that through the macro \<^verbatim>\<open>LOG_WARNING\<close>
  (a recursive call with \<^verbatim>\<open>__func__\<close> = log_message and \<^verbatim>\<open>__LINE__\<close> = 396).
\<close>

function log_message ::
  "debug_monitor_t \<Rightarrow> log_level_t \<Rightarrow> error_code_t \<Rightarrow> string \<Rightarrow> string \<Rightarrow> int \<Rightarrow> int
     \<Rightarrow> debug_monitor_t" where
  "log_message monitor lvl err msg fn ln now =
     (let m1 = log_store monitor lvl err msg fn ln now
      in if level_num lvl \<ge> level_num LOG_ERROR
         then (let m2 = m1\<lparr>health := (health m1)
                              \<lparr>health_fault_count := health_fault_count (health m1) + 1\<rparr>\<rparr>
               in if current_state (health m2) = STATE_RUNNING
                  then log_message
                         (m2\<lparr>health := (health m2)\<lparr>current_state := STATE_FAULT\<rparr>\<rparr>)
                         LOG_WARNING err ''System entered fault state'' ''log_message'' 396 now
                  else m2)
         else m1)"
  by pat_completeness auto
termination
  by (relation "measure (\<lambda>(m, lvl, r). if level_num lvl \<ge> level_num LOG_ERROR then 1 else 0)")
     auto

declare log_message.simps [simp del]

subsection \<open>Decimal output of printf and snprintf\<close>

definition digit_char :: "nat \<Rightarrow> char" where
  "digit_char d = char_of (of_char (CHR ''0'') + d)"

fun dec :: "nat \<Rightarrow> string" where
  "dec n = (if n < 10 then [digit_char n] else dec (n div 10) @ [digit_char (n mod 10)])"

declare dec.simps [simp del]

subsection \<open>debug_init (lines 315 to 338)\<close>

text \<open>\<open>fopen_ok\<close> says whether \<^verbatim>\<open>fopen\<close> returned a handle.\<close>

definition debug_init :: "bool \<Rightarrow> int \<Rightarrow> debug_monitor_t" where
  "debug_init fopen_ok now =
     (let m1 = zero_monitor\<lparr>log_file := (if fopen_ok then Some [] else None)\<rparr>;
          m2 = m1\<lparr>health := (health m1)
                    \<lparr>current_state := STATE_INIT, uptime_seconds := 0,
                     last_health_check := word_of_int now\<rparr>\<rparr>;
          m3 = log_message m2 LOG_INFO ERR_NONE ''Debug monitoring system initialized''
                 ''debug_init'' 333 now;
          m4 = m3\<lparr>health := (health m3)\<lparr>current_state := STATE_RUNNING\<rparr>\<rparr>
      in log_message m4 LOG_INFO ERR_NONE ''System transitioned to RUNNING state''
           ''debug_init'' 337 now)"

subsection \<open>inject_fault (lines 405 to 420)\<close>

text \<open>The new record keeps the \<^verbatim>\<open>error_code\<close> its slot had: the function does not assign it.\<close>

definition inject_fault :: "debug_monitor_t \<Rightarrow> fault_type_t \<Rightarrow> int \<Rightarrow> debug_monitor_t" where
  "inject_fault monitor fault now =
     (let m1 = monitor\<lparr>fault_injection_enabled := 1, active_fault := fault\<rparr>;
          m2 = (if fault_count m1 < MAX_FAULT_HISTORY
                then m1\<lparr>fault_history :=
                           (fault_history m1)
                             (fault_count m1 :=
                                (fault_history m1 (fault_count m1))
                                  \<lparr>fr_timestamp := now, fault_type := fault, resolved := 0,
                                   description := take 127 (''Injected fault: '' @ dec (fault_num fault))\<rparr>),
                         fault_count := fault_count m1 + 1\<rparr>
                else m1)
      in log_message m2 LOG_WARNING ERR_NONE ''Fault injection activated'' ''inject_fault'' 419 now)"

subsection \<open>check_system_health (lines 426 to 462)\<close>

text \<open>
  Lines 430 to 434. \<^verbatim>\<open>current_time - last_health_check\<close> is computed in \<^verbatim>\<open>time_t\<close> and
  stored into a \<^verbatim>\<open>uint32_t\<close>. \<open>r1\<close> and \<open>r2\<close> are the two results of \<^verbatim>\<open>rand()\<close>, which
  are never negative.
\<close>

definition update_gauges :: "debug_monitor_t \<Rightarrow> int \<Rightarrow> nat \<Rightarrow> nat \<Rightarrow> debug_monitor_t" where
  "update_gauges monitor current_time r1 r2 =
     monitor\<lparr>health := (health monitor)
        \<lparr>uptime_seconds := word_of_int (current_time - uint (last_health_check (health monitor))),
         cpu_usage_percent := 10 + int (r1 mod 40),
         memory_usage_percent := 20 + int (r2 mod 60)\<rparr>\<rparr>"

text \<open>Lines 437 to 443: the two threshold checks.\<close>

definition overload_checks :: "debug_monitor_t \<Rightarrow> int \<Rightarrow> debug_monitor_t" where
  "overload_checks monitor now =
     (let m1 = (if cpu_usage_percent (health monitor) > 90
                then log_message monitor LOG_ERROR ERR_SYSTEM_OVERLOAD ''CPU usage critical''
                       ''check_system_health'' 438 now
                else monitor)
      in if memory_usage_percent (health m1) > 85
         then log_message m1 LOG_ERROR ERR_MEMORY_CORRUPTION ''Memory usage critical''
                ''check_system_health'' 442 now
         else m1)"

text \<open>Lines 449 to 459: the watchdog.\<close>

definition watchdog_check ::
  "debug_monitor_t \<Rightarrow> watchdog_t \<Rightarrow> int \<Rightarrow> debug_monitor_t \<times> watchdog_t" where
  "watchdog_check monitor w current_time =
     (if last_watchdog_feed w = 0
      then (monitor, w\<lparr>last_watchdog_feed := current_time, watchdog_logged := 0\<rparr>)
      else if current_time - last_watchdog_feed w \<ge> 5
      then (if watchdog_logged w = 0
            then (log_message monitor LOG_CRITICAL ERR_WATCHDOG_TIMEOUT
                    ''Watchdog timeout detected'' ''check_system_health'' 454 current_time,
                  w\<lparr>watchdog_logged := 1, last_watchdog_feed := current_time\<rparr>)
            else (monitor, w\<lparr>last_watchdog_feed := current_time\<rparr>))
      else (monitor, w))"

definition check_system_health ::
  "debug_monitor_t \<Rightarrow> watchdog_t \<Rightarrow> int \<Rightarrow> nat \<Rightarrow> nat \<Rightarrow> debug_monitor_t \<times> watchdog_t" where
  "check_system_health monitor w current_time r1 r2 =
     (let m1 = update_gauges monitor current_time r1 r2;
          m2 = overload_checks m1 current_time;
          (m3, w') = watchdog_check m2 w current_time
      in (m3\<lparr>health := (health m3)\<lparr>last_health_check := word_of_int current_time\<rparr>\<rparr>, w'))"

subsection \<open>attempt_fault_recovery (lines 468 to 503)\<close>

text \<open>The body of the loop of lines 485 to 490, at index \<open>i\<close>.\<close>

definition resolve_record :: "debug_monitor_t \<Rightarrow> nat \<Rightarrow> int \<Rightarrow> debug_monitor_t" where
  "resolve_record monitor i now =
     (if resolved (fault_history monitor i) = 0
      then log_message
             (monitor\<lparr>fault_history :=
                        (fault_history monitor)(i := (fault_history monitor i)\<lparr>resolved := 1\<rparr>)\<rparr>)
             LOG_INFO ERR_NONE ''Fault resolved in recovery attempt''
             ''attempt_fault_recovery'' 488 now
      else monitor)"

text \<open>The loop \<^verbatim>\<open>for (int i = 0; i < monitor->fault_count; i++)\<close>, entered at index \<open>i\<close>.\<close>

function resolve_loop :: "debug_monitor_t \<Rightarrow> nat \<Rightarrow> int \<Rightarrow> debug_monitor_t" where
  "resolve_loop monitor i now =
     (if i < fault_count monitor
      then resolve_loop (resolve_record monitor i now) (Suc i) now
      else monitor)"
  by pat_completeness auto
termination
  by (relation "measure (\<lambda>(m, i, now). fault_count m - i)")
     (auto simp: resolve_record_def log_message.simps log_store_def Let_def)

declare resolve_loop.simps [simp del]

text \<open>
  \<open>now\<close> is the clock before and \<open>later\<close> the clock after the two seconds of \<^verbatim>\<open>usleep\<close>;
  \<open>r1\<close> and \<open>r2\<close> are the two results of \<^verbatim>\<open>rand()\<close>.
\<close>

definition attempt_fault_recovery ::
  "debug_monitor_t \<Rightarrow> int \<Rightarrow> int \<Rightarrow> nat \<Rightarrow> nat \<Rightarrow> debug_monitor_t" where
  "attempt_fault_recovery monitor now later r1 r2 =
     (if current_state (health monitor) \<noteq> STATE_FAULT
      then log_message monitor LOG_INFO ERR_NONE ''No faults to recover from''
             ''attempt_fault_recovery'' 470 now
      else
        (let m1 = log_message monitor LOG_INFO ERR_NONE ''Attempting fault recovery''
                    ''attempt_fault_recovery'' 474 now;
             m2 = m1\<lparr>fault_injection_enabled := 0, active_fault := FAULT_NONE\<rparr>;
             m3 = m2\<lparr>health := (health m2)
                       \<lparr>current_state := STATE_RECOVERY,
                        recovery_count := recovery_count (health m2) + 1\<rparr>\<rparr>;
             m4 = resolve_loop m3 0 now;
             m5 = m4\<lparr>health := (health m4)\<lparr>current_state := STATE_RUNNING\<rparr>\<rparr>;
             m6 = log_message m5 LOG_INFO ERR_NONE ''Fault recovery successful''
                    ''attempt_fault_recovery'' 498 later
         in m6\<lparr>health := (health m6)
                  \<lparr>cpu_usage_percent := 15 + int (r1 mod 20),
                   memory_usage_percent := 25 + int (r2 mod 25)\<rparr>\<rparr>))"

subsection \<open>save_log_to_file and debug_shutdown (lines 344 to 359 and 509 to 523)\<close>

text \<open>\<open>ferr\<close> is the result of \<^verbatim>\<open>ferror\<close> after the write.\<close>

definition save_log_to_file :: "debug_monitor_t \<Rightarrow> bool \<Rightarrow> int \<Rightarrow> debug_monitor_t" where
  "save_log_to_file monitor ferr now =
     (case log_file monitor of
        None \<Rightarrow>
          log_message monitor LOG_ERROR ERR_FILE_IO_ERROR ''Log file not available''
            ''save_log_to_file'' 511 now
      | Some text \<Rightarrow>
          (let m1 = monitor\<lparr>log_file :=
                       Some (text @ [CHR 0x0A] @ ''=== Log Session End ==='' @ [CHR 0x0A])\<rparr>
           in if ferr
              then log_message m1 LOG_ERROR ERR_FILE_IO_ERROR ''Error writing to log file''
                     ''save_log_to_file'' 520 now
              else m1))"

text \<open>
  \<^verbatim>\<open>ASSERT_STATE\<close> (lines 193 to 199) logs a Critical entry and then fails \<^verbatim>\<open>assert\<close>, which
  aborts the process; the monitor is lost with it.
\<close>

datatype error = AssertionFailed

definition debug_shutdown :: "debug_monitor_t \<Rightarrow> bool \<Rightarrow> int \<Rightarrow> error + debug_monitor_t" where
  "debug_shutdown monitor ferr now =
     (let m1 = log_message monitor LOG_INFO ERR_NONE ''Shutting down debug monitoring system''
                 ''debug_shutdown'' 345 now;
          m2 = save_log_to_file m1 ferr now;
          m3 = (if log_file m2 \<noteq> None then m2\<lparr>log_file := None\<rparr> else m2)
      in if current_state (health m3) \<noteq> STATE_FAULT
         then Inr m3
         else Inl AssertionFailed)"

subsection \<open>display_debug_info (lines 529 to 563)\<close>

text \<open>The function only reads the monitor; its result is the list of lines it prints.\<close>

fun state_name :: "system_state_t \<Rightarrow> string" where
  "state_name STATE_INIT = ''INIT''"
| "state_name STATE_RUNNING = ''RUNNING''"
| "state_name STATE_FAULT = ''FAULT''"
| "state_name STATE_RECOVERY = ''RECOVERY''"
| "state_name STATE_SHUTDOWN = ''SHUTDOWN''"

fun level_tag :: "log_level_t \<Rightarrow> string" where
  "level_tag LOG_DEBUG = ''DBG''"
| "level_tag LOG_INFO = ''INF''"
| "level_tag LOG_WARNING = ''WRN''"
| "level_tag LOG_ERROR = ''ERR''"
| "level_tag LOG_CRITICAL = ''CRT''"

definition gauge_text :: "int \<Rightarrow> string" where
  "gauge_text g = (if g < 0 then ''-'' else []) @ dec (nat \<bar>g\<bar>) @ ''.0%''"

definition display_debug_info :: "debug_monitor_t \<Rightarrow> string list" where
  "display_debug_info monitor =
     (let h = health monitor;
          start = (if log_count monitor > 5 then log_count monitor - 5 else 0)
      in [[], ''=== Debug Information ==='',
          ''System State: '' @ state_name (current_state h),
          ''Uptime: '' @ dec (unat (uptime_seconds h)) @ '' seconds'',
          ''Fault Count: '' @ dec (unat (health_fault_count h)),
          ''Recovery Count: '' @ dec (unat (recovery_count h)),
          ''CPU Usage: '' @ gauge_text (cpu_usage_percent h),
          ''Memory Usage: '' @ gauge_text (memory_usage_percent h),
          [], ''Recent Log Entries:'']
         @ map (\<lambda>i. ''  ['' @ level_tag (level (log_buffer monitor i)) @ ''] ''
                       @ message (log_buffer monitor i))
               [start ..< log_count monitor]
         @ [[], ''Fault History:'']
         @ map (\<lambda>i. ''  ''
                       @ (if resolved (fault_history monitor i) \<noteq> 0 then ''RESOLVED'' else ''ACTIVE'')
                       @ '': '' @ description (fault_history monitor i))
               [0 ..< fault_count monitor]
         @ [[]])"

subsection \<open>Sequences of calls\<close>

text \<open>
  The calls the main loop (lines 235 to 302) and the other simulators make on the monitor,
  each with the environment inputs it consumes. The state is the monitor together with the
  statics of the health check. \<open>Display\<close> leaves both as they are.
\<close>

datatype call =
    Log log_level_t error_code_t string string int int
  | Inject fault_type_t int
  | Tick int nat nat
  | Recover int int nat nat
  | Display

fun run_call :: "debug_monitor_t \<times> watchdog_t \<Rightarrow> call \<Rightarrow> debug_monitor_t \<times> watchdog_t" where
  "run_call (m, w) (Log lvl err msg fn ln now) = (log_message m lvl err msg fn ln now, w)"
| "run_call (m, w) (Inject fault now) = (inject_fault m fault now, w)"
| "run_call (m, w) (Tick now r1 r2) = check_system_health m w now r1 r2"
| "run_call (m, w) (Recover now later r1 r2) = (attempt_fault_recovery m now later r1 r2, w)"
| "run_call (m, w) Display = (m, w)"

definition run_calls ::
  "debug_monitor_t \<times> watchdog_t \<Rightarrow> call list \<Rightarrow> debug_monitor_t \<times> watchdog_t" where
  "run_calls s cs = foldl run_call s cs"

text \<open>The state after \<^verbatim>\<open>debug_init\<close>, before the first call of the health check.\<close>

definition initial :: "bool \<Rightarrow> int \<Rightarrow> debug_monitor_t \<times> watchdog_t" where
  "initial fopen_ok now = (debug_init fopen_ok now, watchdog_init)"

subsection \<open>Example states and observations used in the statements below\<close>


text \<open>The monitor after initialisation and 50 fault injections: its fault history is full.\<close>

definition saturated_monitor :: debug_monitor_t where
  "saturated_monitor =
     fst (run_calls (initial True 100) (replicate 50 (Inject FAULT_COMM_BREAK 101)))"

text \<open>
  The monitor after initialisation, two fault injections and a Critical entry from the
  memory-corruption simulator: it is in the fault state with two unresolved records.
\<close>

definition faulted_monitor :: debug_monitor_t where
  "faulted_monitor =
     fst (run_calls (initial True 100)
            [Inject FAULT_ACTUATOR_FAIL 101, Inject FAULT_MEMORY_LEAK 102,
             Log LOG_CRITICAL ERR_MEMORY_CORRUPTION ''Memory corruption simulation active''
               ''simulate_memory_corruption'' 667 104])"

text \<open>
  One round of fault and recovery: the memory-corruption simulator logs its Critical entry and
  the operator recovers. After initialisation and 65535 such rounds \<open>recovery_count\<close> is
  65535; one more Critical entry puts the monitor into the fault state again.
\<close>

definition fault_cycle :: "call list" where
  "fault_cycle =
     [Log LOG_CRITICAL ERR_MEMORY_CORRUPTION ''Memory corruption simulation active''
        ''simulate_memory_corruption'' 667 101,
      Recover 102 104 0 0]"

definition wrapped_monitor :: debug_monitor_t where
  "wrapped_monitor =
     fst (run_calls (initial True 100)
            (concat (replicate 65535 fault_cycle)
             @ [Log LOG_CRITICAL ERR_MEMORY_CORRUPTION ''Memory corruption simulation active''
                  ''simulate_memory_corruption'' 667 101]))"

text \<open>The number of Critical entries with the watchdog's error code among the live entries.\<close>

definition watchdog_entries :: "debug_monitor_t \<Rightarrow> nat" where
  "watchdog_entries monitor =
     length (filter (\<lambda>i. level (log_buffer monitor i) = LOG_CRITICAL
                          \<and> error_code (log_buffer monitor i) = ERR_WATCHDOG_TIMEOUT)
               [0 ..< log_count monitor])"

section \<open>Basic facts about the operations\<close>

subsection \<open>The log\<close>

lemma log_store_count:
  "log_count (log_store m lvl err msg fn ln now) =
     (if log_count m \<ge> MAX_LOG_ENTRIES then MAX_LOG_ENTRIES else log_count m + 1)"
  by (simp add: log_store_def Let_def MAX_LOG_ENTRIES_def)

lemma log_store_frame [simp]:
  "health (log_store m lvl err msg fn ln now) = health m"
  "fault_count (log_store m lvl err msg fn ln now) = fault_count m"
  "fault_history (log_store m lvl err msg fn ln now) = fault_history m"
  "log_file (log_store m lvl err msg fn ln now) = log_file m"
  "fault_injection_enabled (log_store m lvl err msg fn ln now) = fault_injection_enabled m"
  "active_fault (log_store m lvl err msg fn ln now) = active_fault m"
  by (simp_all add: log_store_def Let_def)

lemma log_message_low:
  "level_num lvl < 3 \<Longrightarrow> log_message m lvl err msg fn ln now = log_store m lvl err msg fn ln now"
  by (simp add: log_message.simps Let_def)

lemma log_message_high_running:
  "level_num lvl \<ge> 3 \<Longrightarrow> current_state (health m) = STATE_RUNNING \<Longrightarrow>
   log_message m lvl err msg fn ln now =
     log_store
       ((log_store m lvl err msg fn ln now)
          \<lparr>health := (health m)\<lparr>health_fault_count := health_fault_count (health m) + 1,
                                current_state := STATE_FAULT\<rparr>\<rparr>)
       LOG_WARNING err ''System entered fault state'' ''log_message'' 396 now"
  by (simp add: log_message.simps [of m] Let_def log_message_low)

lemma log_message_high_other:
  "level_num lvl \<ge> 3 \<Longrightarrow> current_state (health m) \<noteq> STATE_RUNNING \<Longrightarrow>
   log_message m lvl err msg fn ln now =
     (log_store m lvl err msg fn ln now)
          \<lparr>health := (health m)\<lparr>health_fault_count := health_fault_count (health m) + 1\<rparr>\<rparr>"
  by (simp add: log_message.simps [of m] Let_def)

lemmas log_message_cases = log_message_low log_message_high_running log_message_high_other

lemma log_message_frame [simp]:
  "fault_count (log_message m lvl err msg fn ln now) = fault_count m"
  "fault_history (log_message m lvl err msg fn ln now) = fault_history m"
  "log_file (log_message m lvl err msg fn ln now) = log_file m"
  "fault_injection_enabled (log_message m lvl err msg fn ln now) = fault_injection_enabled m"
  "active_fault (log_message m lvl err msg fn ln now) = active_fault m"
  by (cases "level_num lvl < 3"; cases "current_state (health m) = STATE_RUNNING";
      simp add: log_message_cases)+

lemma log_message_count_le:
  "log_count (log_message m lvl err msg fn ln now) \<le> MAX_LOG_ENTRIES"
  by (cases "level_num lvl < 3"; cases "current_state (health m) = STATE_RUNNING";
      simp add: log_message_cases log_store_count)

lemma log_message_state:
  "current_state (health (log_message m lvl err msg fn ln now)) =
     (if level_num lvl \<ge> 3 \<and> current_state (health m) = STATE_RUNNING then STATE_FAULT
      else current_state (health m))"
  by (cases "level_num lvl < 3"; cases "current_state (health m) = STATE_RUNNING";
      simp add: log_message_cases)

lemma log_message_health_low:
  "level_num lvl < 3 \<Longrightarrow> health (log_message m lvl err msg fn ln now) = health m"
  by (simp add: log_message_low)


lemma log_store_buffer_room:
  "log_count m < MAX_LOG_ENTRIES \<Longrightarrow>
   log_buffer (log_store m lvl err msg fn ln now) =
     (log_buffer m)(log_count m :=
        \<lparr>timestamp = now, level = lvl, error_code = err, message = take 255 msg,
         func = take 63 fn, line_number = ln\<rparr>)"
  by (simp add: log_store_def Let_def)



lemma inject_fault_fault_count:
  "fault_count (inject_fault m f now) =
     (if fault_count m < MAX_FAULT_HISTORY then fault_count m + 1 else fault_count m)"
  by (simp add: inject_fault_def Let_def)

lemma inject_fault_health:
  "health (inject_fault m f now) = health m"
  by (simp add: inject_fault_def Let_def log_message_health_low)

lemma update_gauges_frame [simp]:
  "log_count (update_gauges m now r1 r2) = log_count m"
  "log_buffer (update_gauges m now r1 r2) = log_buffer m"
  "fault_count (update_gauges m now r1 r2) = fault_count m"
  "fault_history (update_gauges m now r1 r2) = fault_history m"
  "current_state (health (update_gauges m now r1 r2)) = current_state (health m)"
  by (simp_all add: update_gauges_def)

lemma overload_checks_skip:
  "overload_checks (update_gauges m now r1 r2) t = update_gauges m now r1 r2"
proof -
  have "r1 mod 40 < 40" and "r2 mod 60 < 60" by simp_all
  then have "\<not> 10 + int (r1 mod 40) > 90" and "\<not> 20 + int (r2 mod 60) > 85" by linarith+
  then show ?thesis by (simp add: overload_checks_def update_gauges_def Let_def)
qed


lemma watchdog_check_fault_count:
  "fault_count (fst (watchdog_check m w now)) = fault_count m"
  by (simp add: watchdog_check_def)

lemma check_system_health_eq:
  "check_system_health m w now r1 r2 =
     (let s = watchdog_check (update_gauges m now r1 r2) w now
      in ((fst s)\<lparr>health := (health (fst s))\<lparr>last_health_check := word_of_int now\<rparr>\<rparr>, snd s))"
  by (simp add: check_system_health_def overload_checks_skip Let_def split: prod.splits)


lemma check_system_health_fault_count:
  "fault_count (fst (check_system_health m w now r1 r2)) = fault_count m"
  by (simp add: check_system_health_eq Let_def watchdog_check_fault_count)

lemma resolve_record_frame [simp]:
  "fault_count (resolve_record m i now) = fault_count m"
  "health (resolve_record m i now) = health m"
  "log_file (resolve_record m i now) = log_file m"
  "fault_injection_enabled (resolve_record m i now) = fault_injection_enabled m"
  "active_fault (resolve_record m i now) = active_fault m"
  by (simp_all add: resolve_record_def log_message_health_low)

lemma resolve_record_history:
  "fault_history (resolve_record m i now) =
     (fault_history m)(i := (if resolved (fault_history m i) = 0
                             then (fault_history m i)\<lparr>resolved := 1\<rparr>
                             else fault_history m i))"
  by (simp add: resolve_record_def)

lemma resolve_record_log_count_le:
  "log_count m \<le> MAX_LOG_ENTRIES \<Longrightarrow> log_count (resolve_record m i now) \<le> MAX_LOG_ENTRIES"
  by (simp add: resolve_record_def log_message_count_le)

lemma resolve_loop_fault_count [simp]:
  "fault_count (resolve_loop m i now) = fault_count m"
proof (induction m i now rule: resolve_loop.induct)
  case (1 monitor i now)
  then show ?case by (subst resolve_loop.simps) simp
qed

lemma resolve_loop_health [simp]:
  "health (resolve_loop m i now) = health m"
proof (induction m i now rule: resolve_loop.induct)
  case (1 monitor i now)
  then show ?case by (subst resolve_loop.simps) simp
qed

lemma resolve_loop_log_file [simp]:
  "log_file (resolve_loop m i now) = log_file m"
proof (induction m i now rule: resolve_loop.induct)
  case (1 monitor i now)
  then show ?case by (subst resolve_loop.simps) simp
qed

lemma resolve_loop_injection [simp]:
  "fault_injection_enabled (resolve_loop m i now) = fault_injection_enabled m \<and>
   active_fault (resolve_loop m i now) = active_fault m"
proof (induction m i now rule: resolve_loop.induct)
  case (1 monitor i now)
  then show ?case by (subst (1 2) resolve_loop.simps) simp
qed

lemma resolve_loop_log_count_le:
  "log_count m \<le> MAX_LOG_ENTRIES \<Longrightarrow> log_count (resolve_loop m i now) \<le> MAX_LOG_ENTRIES"
proof (induction m i now rule: resolve_loop.induct)
  case (1 monitor i now)
  then show ?case
    by (subst resolve_loop.simps) (simp add: resolve_record_log_count_le)
qed

lemma resolve_loop_history:
  "fault_history (resolve_loop m i now) j =
     (if i \<le> j \<and> j < fault_count m \<and> resolved (fault_history m j) = 0
      then (fault_history m j)\<lparr>resolved := 1\<rparr>
      else fault_history m j)"
proof (induction m i now rule: resolve_loop.induct)
  case (1 monitor i now)
  show ?case
  proof (cases "i < fault_count monitor")
    case True
    then have "fault_history (resolve_loop monitor i now) j =
               fault_history (resolve_loop (resolve_record monitor i now) (Suc i) now) j"
      by (subst resolve_loop.simps) simp
    also have "\<dots> = (if Suc i \<le> j \<and> j < fault_count monitor
                          \<and> resolved (fault_history (resolve_record monitor i now) j) = 0
                       then (fault_history (resolve_record monitor i now) j)\<lparr>resolved := 1\<rparr>
                       else fault_history (resolve_record monitor i now) j)"
      using 1 [OF True] by simp
    finally show ?thesis using True
      by (auto simp: resolve_record_history)
  next
    case False
    then show ?thesis by (subst resolve_loop.simps) simp
  qed
qed


lemma attempt_fault_recovery_fault_count:
  "fault_count (attempt_fault_recovery m now later r1 r2) = fault_count m"
  by (simp add: attempt_fault_recovery_def Let_def)


lemma run_call_fault_count_le:
  "fault_count (fst s) \<le> MAX_FAULT_HISTORY \<Longrightarrow>
   fault_count (fst (run_call s c)) \<le> MAX_FAULT_HISTORY"
  by (cases s; cases c)
     (simp_all add: inject_fault_fault_count check_system_health_fault_count
        attempt_fault_recovery_fault_count)


lemma run_calls_fault_count_le:
  "fault_count (fst s) \<le> MAX_FAULT_HISTORY \<Longrightarrow>
   fault_count (fst (run_calls s cs)) \<le> MAX_FAULT_HISTORY"
  unfolding run_calls_def
  by (induction cs arbitrary: s) (simp_all add: run_call_fault_count_le)

lemma debug_init_counts:
  "log_count (debug_init ok now) = 2" "fault_count (debug_init ok now) = 0"
  by (simp_all add: debug_init_def Let_def log_message_low log_store_count zero_monitor_def
        MAX_LOG_ENTRIES_def)

lemma debug_init_state:
  "current_state (health (debug_init ok now)) = STATE_RUNNING"
  by (simp add: debug_init_def Let_def log_message_state)


lemma run_calls_Cons: "run_calls s (c # cs) = run_calls (run_call s c) cs"
  by (simp add: run_calls_def)

lemma run_calls_Nil: "run_calls s [] = s"
  by (simp add: run_calls_def)



lemma injections_fault_count:
  "fault_count m \<le> MAX_FAULT_HISTORY \<Longrightarrow>
   fault_count (fst (run_calls (m, w) (replicate n (Inject f now)))) =
     min MAX_FAULT_HISTORY (fault_count m + n)"
proof (induction n arbitrary: m)
  case 0
  then show ?case by (simp add: run_calls_Nil)
next
  case (Suc n)
  let ?m' = "inject_fault m f now"
  have eq: "fault_count ?m' = min MAX_FAULT_HISTORY (fault_count m + 1)"
    using Suc.prems by (simp add: inject_fault_fault_count min_def)
  then have le: "fault_count ?m' \<le> MAX_FAULT_HISTORY" by simp
  from Suc.IH [OF le] eq show ?case
    by (simp add: run_calls_Cons min_def)
qed



lemma saturated_monitor_count: "fault_count saturated_monitor = 50"
  by (simp add: saturated_monitor_def initial_def injections_fault_count debug_init_counts
        MAX_FAULT_HISTORY_def)

lemma log_store_health_irrelevant:
  "log_buffer (log_store (m\<lparr>health := h\<rparr>) lvl err msg fn ln now) =
     log_buffer (log_store m lvl err msg fn ln now)"
  "log_count (log_store (m\<lparr>health := h\<rparr>) lvl err msg fn ln now) =
     log_count (log_store m lvl err msg fn ln now)"
  by (simp_all add: log_store_def Let_def cong del: if_weak_cong)

lemma log_message_buffer:
  "log_buffer (log_message m lvl err msg fn ln now) =
     (if level_num lvl \<ge> 3 \<and> current_state (health m) = STATE_RUNNING
      then log_buffer (log_store (log_store m lvl err msg fn ln now) LOG_WARNING err
                         ''System entered fault state'' ''log_message'' 396 now)
      else log_buffer (log_store m lvl err msg fn ln now))"
  by (cases "level_num lvl < 3"; cases "current_state (health m) = STATE_RUNNING";
      simp add: log_message_cases log_store_health_irrelevant)


lemma watchdog_check_state:
  "current_state (health (fst (watchdog_check m w now))) =
     (if last_watchdog_feed w \<noteq> 0 \<and> now - last_watchdog_feed w \<ge> 5 \<and> watchdog_logged w = 0
         \<and> current_state (health m) = STATE_RUNNING
      then STATE_FAULT else current_state (health m))"
  by (simp add: watchdog_check_def log_message_state)

lemma check_system_health_state:
  "current_state (health (fst (check_system_health m w now r1 r2))) =
     (if last_watchdog_feed w \<noteq> 0 \<and> now - last_watchdog_feed w \<ge> 5 \<and> watchdog_logged w = 0
         \<and> current_state (health m) = STATE_RUNNING
      then STATE_FAULT else current_state (health m))"
  by (simp add: check_system_health_eq Let_def watchdog_check_state)

lemma attempt_fault_recovery_state:
  "current_state (health (attempt_fault_recovery m now later r1 r2)) =
     (if current_state (health m) = STATE_FAULT then STATE_RUNNING else current_state (health m))"
  by (simp add: attempt_fault_recovery_def Let_def log_message_health_low)

lemma debug_shutdown_missing_sink:
  "current_state (health m) = STATE_RUNNING \<Longrightarrow> log_file m = None \<Longrightarrow>
   debug_shutdown m ferr now = Inl AssertionFailed"
  by (simp add: debug_shutdown_def save_log_to_file_def Let_def log_message_state
        log_message_health_low)

lemma debug_init_log_file:
  "log_file (debug_init ok now) = (if ok then Some [] else None)"
  by (simp add: debug_init_def Let_def zero_monitor_def)

lemma log_store_entries:
  "log_buffer (log_store m lvl err msg fn ln now) i \<in> range (log_buffer m)
   \<or> error_code (log_buffer (log_store m lvl err msg fn ln now) i) = err"
  by (simp add: log_store_def Let_def)

lemma log_message_entries:
  "log_buffer (log_message m lvl err msg fn ln now) i \<in> range (log_buffer m)
   \<or> error_code (log_buffer (log_message m lvl err msg fn ln now) i) = err"
proof (cases "level_num lvl \<ge> 3 \<and> current_state (health m) = STATE_RUNNING")
  case False
  then show ?thesis
    using log_store_entries [of m lvl err msg fn ln now i] by (auto simp: log_message_buffer)
next
  case True
  let ?m1 = "log_store m lvl err msg fn ln now"
  let ?m2 = "log_store ?m1 LOG_WARNING err ''System entered fault state'' ''log_message'' 396 now"
  have buf: "log_buffer (log_message m lvl err msg fn ln now) = log_buffer ?m2"
    using True by (simp add: log_message_buffer)
  have "log_buffer ?m2 i \<in> range (log_buffer ?m1) \<or> error_code (log_buffer ?m2 i) = err"
    by (rule log_store_entries)
  then consider (old) j where "log_buffer ?m2 i = log_buffer ?m1 j"
    | (new) "error_code (log_buffer ?m2 i) = err"
    by blast
  then show ?thesis
  proof cases
    case old
    then show ?thesis
      using log_store_entries [of m lvl err msg fn ln now j] by (auto simp: buf)
  next
    case new
    then show ?thesis by (simp add: buf)
  qed
qed

lemma watchdog_check_entries:
  "log_buffer (fst (watchdog_check m w now)) i \<in> range (log_buffer m)
   \<or> error_code (log_buffer (fst (watchdog_check m w now)) i) = ERR_WATCHDOG_TIMEOUT"
  using log_message_entries [of m LOG_CRITICAL ERR_WATCHDOG_TIMEOUT _ _ _ now i]
  by (simp add: watchdog_check_def)

lemma watchdog_check_gauges:
  "cpu_usage_percent (health (fst (watchdog_check m w now))) = cpu_usage_percent (health m)"
  "memory_usage_percent (health (fst (watchdog_check m w now))) = memory_usage_percent (health m)"
  by (simp_all add: watchdog_check_def log_message_high_running log_message_high_other
        log_message.simps [of m LOG_CRITICAL] Let_def log_message_health_low)

lemma faulted_monitor_facts:
  "current_state (health faulted_monitor) = STATE_FAULT"
  "fault_count faulted_monitor = 2"
  "resolved (fault_history faulted_monitor 0) = 0"
  "resolved (fault_history faulted_monitor 1) = 0"
  "recovery_count (health faulted_monitor) = 0"
  by code_simp+

lemma run_calls_append: "run_calls s (cs @ ds) = run_calls (run_calls s cs) ds"
  by (simp add: run_calls_def)

lemma log_message_recovery_count:
  "recovery_count (health (log_message m lvl err msg fn ln now)) = recovery_count (health m)"
  by (cases "level_num lvl < 3"; cases "current_state (health m) = STATE_RUNNING";
      simp add: log_message_cases)

lemma attempt_fault_recovery_recovery_count:
  "recovery_count (health (attempt_fault_recovery m now later r1 r2)) =
     (if current_state (health m) = STATE_FAULT then recovery_count (health m) + 1
      else recovery_count (health m))"
  by (simp add: attempt_fault_recovery_def Let_def log_message_health_low)

lemma fault_cycles:
  "current_state (health m) = STATE_RUNNING \<Longrightarrow>
   current_state (health (fst (run_calls (m, w) (concat (replicate n fault_cycle)))))
     = STATE_RUNNING
   \<and> recovery_count (health (fst (run_calls (m, w) (concat (replicate n fault_cycle)))))
       = recovery_count (health m) + of_nat n"
proof (induction n arbitrary: m)
  case 0
  then show ?case by (simp add: run_calls_Nil)
next
  case (Suc n)
  let ?m1 = "log_message m LOG_CRITICAL ERR_MEMORY_CORRUPTION
               ''Memory corruption simulation active'' ''simulate_memory_corruption'' 667 101"
  let ?m2 = "attempt_fault_recovery ?m1 102 104 0 0"
  have f: "current_state (health ?m1) = STATE_FAULT"
    using Suc.prems by (simp add: log_message_state)
  have st: "current_state (health ?m2) = STATE_RUNNING"
    using f by (simp add: attempt_fault_recovery_state)
  have rc: "recovery_count (health ?m2) = recovery_count (health m) + 1"
    using f by (simp add: attempt_fault_recovery_recovery_count log_message_recovery_count)
  have step: "run_calls (m, w) (concat (replicate (Suc n) fault_cycle))
                = run_calls (?m2, w) (concat (replicate n fault_cycle))"
    by (simp add: fault_cycle_def run_calls_Cons)
  from Suc.IH [OF st] rc show ?case
    unfolding step by (simp add: ac_simps)
qed

lemma debug_init_recovery_count: "recovery_count (health (debug_init ok now)) = 0"
  by (simp add: debug_init_def Let_def log_message_recovery_count zero_monitor_def)

lemma wrapped_monitor_facts:
  "current_state (health wrapped_monitor) = STATE_FAULT"
  "recovery_count (health wrapped_monitor) = 65535"
proof -
  obtain m' w' where s:
    "run_calls (initial True 100) (concat (replicate 65535 fault_cycle)) = (m', w')"
    by (cases "run_calls (initial True 100) (concat (replicate 65535 fault_cycle))")
  have "current_state (health m') = STATE_RUNNING \<and> recovery_count (health m') = 65535"
    using fault_cycles [of "debug_init True 100" watchdog_init 65535] s
    by (simp add: initial_def debug_init_state debug_init_recovery_count)
  then show "current_state (health wrapped_monitor) = STATE_FAULT"
    and "recovery_count (health wrapped_monitor) = 65535"
    by (simp_all add: wrapped_monitor_def run_calls_append s run_calls_Cons run_calls_Nil
          log_message_state log_message_recovery_count)
qed

lemma unat_succ_u16:
  "x \<noteq> 65535 \<Longrightarrow> unat (x + 1 :: 16 word) = unat x + 1"
proof -
  assume ne: "x \<noteq> 65535"
  have "(65535 :: 16 word) = - 1" by simp
  with ne have "x \<noteq> - 1" by simp
  then have "1 + x \<noteq> 0"
    by (simp add: add_eq_0_iff)
  then have "unat (1 + x) = Suc (unat x)"
    by (rule unatSuc)
  then show ?thesis
    by (simp add: add.commute)
qed

section \<open>The claims\<close>

text \<open>
  C1 as stated fails: a health check is one of the operations it says never set the fault
  state, and the health check made five seconds after the first one takes the running
  monitor to the fault state, through the Critical entry of its watchdog.
\<close>

theorem tick_sets_fault_counterexample:
  "current_state (health (fst (run_calls (initial True 100) [Tick 100 0 0]))) = STATE_RUNNING
   \<and> current_state (health (fst (run_calls (initial True 100) [Tick 100 0 0, Tick 105 0 0])))
       = STATE_FAULT"
  by code_simp

text \<open>
  C1, amended. The fault state is entered only inside \<open>log_message\<close>: after a call the state
  is Fault exactly when it was Fault before or the entry has level Error or Critical and the
  state was Running, and in every other case the call leaves the state as it was.
  \<open>inject_fault\<close> leaves the state as it is, \<open>attempt_fault_recovery\<close> turns Fault into
  Running and leaves any other state as it is, so it never ends in the fault state, and
  displaying changes nothing. A health check turns Running into Fault exactly when its
  watchdog logs the Critical timeout entry (a feed time is set, at least 5 seconds have
  passed since it, and the timeout has not been logged before); in every other case it
  leaves the state unchanged.
\<close>

theorem fault_only_by_error_append:
  "(current_state (health (log_message m lvl err msg fn ln now)) = STATE_FAULT \<longleftrightarrow>
      current_state (health m) = STATE_FAULT
      \<or> (level_num lvl \<ge> level_num LOG_ERROR \<and> current_state (health m) = STATE_RUNNING))
   \<and> current_state (health (log_message m lvl err msg fn ln now)) =
       (if level_num lvl \<ge> level_num LOG_ERROR \<and> current_state (health m) = STATE_RUNNING
        then STATE_FAULT else current_state (health m))
   \<and> current_state (health (inject_fault m f now)) = current_state (health m)
   \<and> current_state (health (attempt_fault_recovery m now later r1 r2)) =
       (if current_state (health m) = STATE_FAULT then STATE_RUNNING
        else current_state (health m))
   \<and> current_state (health (attempt_fault_recovery m now later r1 r2)) \<noteq> STATE_FAULT
   \<and> run_call (m, w) Display = (m, w)
   \<and> (current_state (health (fst (check_system_health m w now r1 r2))) = STATE_FAULT \<longleftrightarrow>
        current_state (health m) = STATE_FAULT
        \<or> (current_state (health m) = STATE_RUNNING \<and> last_watchdog_feed w \<noteq> 0
            \<and> now - last_watchdog_feed w \<ge> 5 \<and> watchdog_logged w = 0))
   \<and> current_state (health (fst (check_system_health m w now r1 r2))) =
       (if current_state (health m) = STATE_RUNNING \<and> last_watchdog_feed w \<noteq> 0
           \<and> now - last_watchdog_feed w \<ge> 5 \<and> watchdog_logged w = 0
        then STATE_FAULT else current_state (health m))"
  by (auto simp: log_message_state inject_fault_health attempt_fault_recovery_state
        check_system_health_state)

theorem fault_only_by_error_append_witness:
  "current_state (health (log_message (debug_init True 100) LOG_ERROR ERR_SENSOR_FAILURE
       ''Sensor failure detected'' ''simulate_sensor_reading'' 589 101)) = STATE_FAULT
   \<and> current_state (health (log_message (debug_init True 100) LOG_WARNING ERR_INVALID_STATE
       ''Invalid actuator command'' ''simulate_actuator_control'' 602 101)) = STATE_RUNNING
   \<and> current_state (health (fst (check_system_health (debug_init True 100)
       \<lparr>last_watchdog_feed = 100, watchdog_logged = 0\<rparr> 105 0 0))) = STATE_FAULT
   \<and> current_state (health (fst (check_system_health (debug_init True 100)
       \<lparr>last_watchdog_feed = 100, watchdog_logged = 0\<rparr> 104 0 0))) = STATE_RUNNING"
  using fault_only_by_error_append [where m = "debug_init True 100" and lvl = LOG_ERROR
      and err = ERR_SENSOR_FAILURE and msg = "''Sensor failure detected''"
      and fn = "''simulate_sensor_reading''" and ln = 589 and now = 101]
    fault_only_by_error_append [where m = "debug_init True 100" and lvl = LOG_WARNING
      and err = ERR_INVALID_STATE and msg = "''Invalid actuator command''"
      and fn = "''simulate_actuator_control''" and ln = 602 and now = 101]
    fault_only_by_error_append [where m = "debug_init True 100"
      and w = "\<lparr>last_watchdog_feed = 100, watchdog_logged = 0\<rparr>" and now = 105
      and ?r1.0 = 0 and ?r2.0 = 0]
    fault_only_by_error_append [where m = "debug_init True 100"
      and w = "\<lparr>last_watchdog_feed = 100, watchdog_logged = 0\<rparr>" and now = 104
      and ?r1.0 = 0 and ?r2.0 = 0]
    debug_init_state [of True 100]
  by simp



text \<open>
  C3. The fault history never holds more than 50 records, after any sequence of calls from
  the initialised monitor. An injection into a history with room adds one unresolved record
  of the injected kind; an injection into a history that already holds 50 records sets
  \<open>fault_injection_enabled\<close> and \<open>active_fault\<close> all the same and leaves the history and its
  count as they were.
\<close>

theorem fault_history_saturates:
  "fault_count (fst (run_calls (initial fopen_ok t0) cs)) \<le> 50
   \<and> (fault_count m < 50 \<longrightarrow>
        fault_count (inject_fault m f now) = fault_count m + 1
        \<and> fault_type (fault_history (inject_fault m f now) (fault_count m)) = f
        \<and> resolved (fault_history (inject_fault m f now) (fault_count m)) = 0)
   \<and> (fault_count m = 50 \<longrightarrow>
        fault_injection_enabled (inject_fault m f now) = 1
        \<and> active_fault (inject_fault m f now) = f
        \<and> fault_count (inject_fault m f now) = 50
        \<and> fault_history (inject_fault m f now) = fault_history m)"
proof -
  have "fault_count (fst (initial fopen_ok t0)) \<le> MAX_FAULT_HISTORY"
    by (simp add: initial_def debug_init_counts)
  then have "fault_count (fst (run_calls (initial fopen_ok t0) cs)) \<le> MAX_FAULT_HISTORY"
    by (rule run_calls_fault_count_le)
  then have seq: "fault_count (fst (run_calls (initial fopen_ok t0) cs)) \<le> 50"
    by (simp add: MAX_FAULT_HISTORY_def)
  show ?thesis
    using seq by (simp add: inject_fault_def Let_def MAX_FAULT_HISTORY_def)
qed

theorem fault_history_saturates_witness:
  "fault_count saturated_monitor = 50
   \<and> fault_injection_enabled (inject_fault saturated_monitor FAULT_POWER_SPIKE 102) = 1
   \<and> active_fault (inject_fault saturated_monitor FAULT_POWER_SPIKE 102) = FAULT_POWER_SPIKE
   \<and> fault_count (inject_fault saturated_monitor FAULT_POWER_SPIKE 102) = 50
   \<and> fault_count (debug_init True 100) < 50
   \<and> fault_count (inject_fault (debug_init True 100) FAULT_POWER_SPIKE 102) = 1"
  using fault_history_saturates [where m = saturated_monitor and f = FAULT_POWER_SPIKE
      and now = 102]
    fault_history_saturates [where m = "debug_init True 100" and f = FAULT_POWER_SPIKE
      and now = 102]
    saturated_monitor_count debug_init_counts(2) [of True 100]
  by simp

text \<open>
  C4 as stated fails at the top of the counter: \<open>recovery_count\<close> is a \<^verbatim>\<open>uint16_t\<close>, and in
  the fault state reached after 65535 rounds of fault and recovery it is 65535; the next
  recovery takes it to 0, not to 65536.
\<close>

theorem recovery_count_wraps_counterexample:
  "current_state (health wrapped_monitor) = STATE_FAULT
   \<and> unat (recovery_count (health wrapped_monitor)) = 65535
   \<and> unat (recovery_count (health (attempt_fault_recovery wrapped_monitor 105 107 3 4))) = 0"
  by (simp add: wrapped_monitor_facts attempt_fault_recovery_recovery_count)

text \<open>
  C4, amended. From the fault state, \<open>attempt_fault_recovery\<close> ends in state Running with
  \<open>recovery_count\<close> incremented once in \<^verbatim>\<open>uint16_t\<close> arithmetic: its value grows by exactly 1
  when it was below 65535 and wraps to 0 when it was 65535. Fault injection is disabled and
  \<open>active_fault\<close> is cleared; the number of records is unchanged, every record below
  \<open>fault_count\<close> that was unresolved is now resolved, and so no record below \<open>fault_count\<close>
  is left unresolved.
\<close>

theorem recovery_from_fault:
  "current_state (health m) = STATE_FAULT \<Longrightarrow>
   current_state (health (attempt_fault_recovery m now later r1 r2)) = STATE_RUNNING
   \<and> recovery_count (health (attempt_fault_recovery m now later r1 r2)) =
       recovery_count (health m) + 1
   \<and> (recovery_count (health m) \<noteq> 65535 \<longrightarrow>
        unat (recovery_count (health (attempt_fault_recovery m now later r1 r2))) =
          unat (recovery_count (health m)) + 1)
   \<and> (recovery_count (health m) = 65535 \<longrightarrow>
        recovery_count (health (attempt_fault_recovery m now later r1 r2)) = 0)
   \<and> fault_injection_enabled (attempt_fault_recovery m now later r1 r2) = 0
   \<and> active_fault (attempt_fault_recovery m now later r1 r2) = FAULT_NONE
   \<and> fault_count (attempt_fault_recovery m now later r1 r2) = fault_count m
   \<and> (\<forall>i < fault_count m.
         resolved (fault_history m i) = 0 \<longrightarrow>
           resolved (fault_history (attempt_fault_recovery m now later r1 r2) i) = 1)
   \<and> (\<forall>i < fault_count m.
         resolved (fault_history (attempt_fault_recovery m now later r1 r2) i) \<noteq> 0)"
proof -
  assume fault: "current_state (health m) = STATE_FAULT"
  let ?m' = "attempt_fault_recovery m now later r1 r2"
  have rc: "recovery_count (health ?m') = recovery_count (health m) + 1"
    using fault by (simp add: attempt_fault_recovery_recovery_count)
  have below: "unat (recovery_count (health ?m')) = unat (recovery_count (health m)) + 1"
    if "recovery_count (health m) \<noteq> 65535"
    using that by (simp add: rc unat_succ_u16)
  have wrap: "recovery_count (health ?m') = 0" if "recovery_count (health m) = 65535"
    using that by (simp add: rc)
  have rest: "current_state (health ?m') = STATE_RUNNING
     \<and> fault_injection_enabled ?m' = 0
     \<and> active_fault ?m' = FAULT_NONE
     \<and> fault_count ?m' = fault_count m
     \<and> (\<forall>i < fault_count m.
           resolved (fault_history m i) = 0 \<longrightarrow> resolved (fault_history ?m' i) = 1)
     \<and> (\<forall>i < fault_count m. resolved (fault_history ?m' i) \<noteq> 0)"
    using fault
    by (simp add: attempt_fault_recovery_def Let_def log_message_health_low resolve_loop_history)
  from rc below wrap rest show ?thesis
    by blast
qed

theorem recovery_from_fault_witness:
  "current_state (health faulted_monitor) = STATE_FAULT
   \<and> recovery_count (health faulted_monitor) \<noteq> 65535
   \<and> resolved (fault_history faulted_monitor 1) = 0
   \<and> current_state (health (attempt_fault_recovery faulted_monitor 105 107 3 4)) = STATE_RUNNING
   \<and> unat (recovery_count (health (attempt_fault_recovery faulted_monitor 105 107 3 4))) = 1
   \<and> resolved (fault_history (attempt_fault_recovery faulted_monitor 105 107 3 4) 1) = 1
   \<and> current_state (health wrapped_monitor) = STATE_FAULT
   \<and> recovery_count (health wrapped_monitor) = 65535
   \<and> recovery_count (health (attempt_fault_recovery wrapped_monitor 105 107 3 4)) = 0"
  using recovery_from_fault [where m = faulted_monitor and now = 105 and later = 107
      and ?r1.0 = 3 and ?r2.0 = 4]
    recovery_from_fault [where m = wrapped_monitor and now = 105 and later = 107
      and ?r1.0 = 3 and ?r2.0 = 4]
    faulted_monitor_facts wrapped_monitor_facts
  by simp

text \<open>
  C5 as stated fails: outside the fault state the function still logs "No faults to recover
  from", so the event log changes.
\<close>

theorem recovery_noop_counterexample:
  "current_state (health (debug_init True 100)) \<noteq> STATE_FAULT
   \<and> log_count (attempt_fault_recovery (debug_init True 100) 101 103 7 9)
       \<noteq> log_count (debug_init True 100)"
  by code_simp

text \<open>
  C5, amended. Outside the fault state, \<open>attempt_fault_recovery\<close> does nothing but store one
  Info entry "No faults to recover from": the health record (state, counters, gauges), the
  fault history and its count, the log file, the injection flag and the active fault are
  unchanged, and \<open>log_count\<close> becomes the smaller of 1000 and \<open>log_count + 1\<close>.
\<close>

theorem recovery_without_fault:
  "current_state (health m) \<noteq> STATE_FAULT \<Longrightarrow>
   attempt_fault_recovery m now later r1 r2 =
     log_store m LOG_INFO ERR_NONE ''No faults to recover from'' ''attempt_fault_recovery'' 470 now
   \<and> health (attempt_fault_recovery m now later r1 r2) = health m
   \<and> fault_history (attempt_fault_recovery m now later r1 r2) = fault_history m
   \<and> fault_count (attempt_fault_recovery m now later r1 r2) = fault_count m
   \<and> log_file (attempt_fault_recovery m now later r1 r2) = log_file m
   \<and> fault_injection_enabled (attempt_fault_recovery m now later r1 r2) = fault_injection_enabled m
   \<and> active_fault (attempt_fault_recovery m now later r1 r2) = active_fault m
   \<and> log_count (attempt_fault_recovery m now later r1 r2) = min 1000 (log_count m + 1)"
  by (simp add: attempt_fault_recovery_def log_message_low log_store_count MAX_LOG_ENTRIES_def)

theorem recovery_without_fault_witness:
  "current_state (health (debug_init True 100)) \<noteq> STATE_FAULT
   \<and> health (attempt_fault_recovery (debug_init True 100) 101 103 7 9)
       = health (debug_init True 100)
   \<and> log_count (attempt_fault_recovery (debug_init True 100) 101 103 7 9) = 3"
proof -
  have ns: "current_state (health (debug_init True 100)) \<noteq> STATE_FAULT"
    by (simp add: debug_init_state)
  from recovery_without_fault [where m = "debug_init True 100" and now = 101 and later = 103
      and ?r1.0 = 7 and ?r2.0 = 9, OF ns]
  have h: "health (attempt_fault_recovery (debug_init True 100) 101 103 7 9)
             = health (debug_init True 100)"
    and c: "log_count (attempt_fault_recovery (debug_init True 100) 101 103 7 9)
             = min 1000 (log_count (debug_init True 100) + 1)"
    by blast+
  from ns h c show ?thesis
    by (simp add: debug_init_counts)
qed

text \<open>
  C6 on the code: thirteen health checks, one per second from second 100 to second 112,
  span 12 seconds. The check at second 105 logs the watchdog timeout and sets
  \<open>watchdog_logged\<close>, which nothing clears again, so the check at second 110 logs nothing:
  the log holds one Critical watchdog entry, not two.
\<close>

theorem twelve_seconds_one_watchdog_entry:
  "watchdog_entries
     (fst (run_calls (initial True 100)
             [Tick 100 0 0, Tick 101 0 0, Tick 102 0 0, Tick 103 0 0, Tick 104 0 0,
              Tick 105 0 0, Tick 106 0 0, Tick 107 0 0, Tick 108 0 0, Tick 109 0 0,
              Tick 110 0 0, Tick 111 0 0, Tick 112 0 0])) = 1"
  by code_simp




text \<open>
  C8 on the code: the monitor is initialised at second 95 and checked at seconds 100 and 101.
  \<open>uptime_seconds\<close> is the time since the previous check: 5 after the first check and 1
  after the second.
\<close>

theorem uptime_decreases:
  "uptime_seconds (health (fst (run_calls (initial True 95) [Tick 100 0 0]))) = 5
   \<and> uptime_seconds (health (fst (run_calls (initial True 95) [Tick 100 0 0, Tick 101 0 0]))) = 1"
  by code_simp

text \<open>
  C9 on the code: the monitor is initialised without a log file and is in state Running.
  \<open>debug_shutdown\<close> calls \<open>save_log_to_file\<close>, which logs "Log file not available" at
  level Error; that entry moves the state to Fault, and the final assertion
  \<^verbatim>\<open>current_state != STATE_FAULT\<close> fails.
\<close>

theorem shutdown_missing_sink_aborts:
  "current_state (health (debug_init False 100)) = STATE_RUNNING
   \<and> log_file (debug_init False 100) = None
   \<and> debug_shutdown (debug_init False 100) False 160 = Inl AssertionFailed"
  by (simp add: debug_init_state debug_init_log_file debug_shutdown_missing_sink)

text \<open>
  C10. In every health check the regenerated gauges satisfy \<open>cpu_usage_percent < 50\<close> and
  \<open>memory_usage_percent < 80\<close>, so neither exceeds its threshold of 90 and 85, the two
  threshold checks of lines 437 to 443 leave the monitor as it is, and every entry of the
  log after the health check is an entry of the log before it or carries the watchdog's
  error code: none with \<^verbatim>\<open>ERR_SYSTEM_OVERLOAD\<close> or \<^verbatim>\<open>ERR_MEMORY_CORRUPTION\<close> is added.
\<close>

theorem overload_branches_unreachable:
  "cpu_usage_percent (health (update_gauges m now r1 r2)) < 50
   \<and> memory_usage_percent (health (update_gauges m now r1 r2)) < 80
   \<and> \<not> cpu_usage_percent (health (update_gauges m now r1 r2)) > 90
   \<and> \<not> memory_usage_percent (health (update_gauges m now r1 r2)) > 85
   \<and> overload_checks (update_gauges m now r1 r2) now = update_gauges m now r1 r2
   \<and> cpu_usage_percent (health (fst (check_system_health m w now r1 r2))) < 50
   \<and> memory_usage_percent (health (fst (check_system_health m w now r1 r2))) < 80
   \<and> (\<forall>i. log_buffer (fst (check_system_health m w now r1 r2)) i \<in> range (log_buffer m)
          \<or> error_code (log_buffer (fst (check_system_health m w now r1 r2)) i)
              = ERR_WATCHDOG_TIMEOUT)"
proof -
  have r: "r1 mod 40 < 40" "r2 mod 60 < 60" by simp_all
  have cpu: "cpu_usage_percent (health (update_gauges m now r1 r2)) < 50"
    and mem: "memory_usage_percent (health (update_gauges m now r1 r2)) < 80"
    using r by (simp_all add: update_gauges_def)
  have entries: "log_buffer (fst (check_system_health m w now r1 r2)) i \<in> range (log_buffer m)
          \<or> error_code (log_buffer (fst (check_system_health m w now r1 r2)) i)
              = ERR_WATCHDOG_TIMEOUT" for i
    using watchdog_check_entries [of "update_gauges m now r1 r2" w now i]
    by (simp add: check_system_health_eq Let_def)
  from cpu mem entries show ?thesis
    by (simp add: overload_checks_skip check_system_health_eq Let_def watchdog_check_gauges)
qed

theorem overload_branches_unreachable_witness:
  "cpu_usage_percent (health (update_gauges (debug_init True 100) 101 39 59)) < 50
   \<and> memory_usage_percent (health (update_gauges (debug_init True 100) 101 39 59)) < 80
   \<and> overload_checks (update_gauges (debug_init True 100) 101 39 59) 101
       = update_gauges (debug_init True 100) 101 39 59"
  using overload_branches_unreachable [where m = "debug_init True 100" and now = 101
      and ?r1.0 = 39 and ?r2.0 = 59]
  by simp

end
